theory Spec2Isabelle
  imports Main
begin

section \<open>The OpenTelemetry plugin of grammY (src/plugin.ts)\<close>

text \<open>
  The plugin talks to two outside parties: the OpenTelemetry tracer (spans are started,
  given events and attributes, and ended) and the chain of API transformers below it
  (\<open>prev\<close>). The embedding records every call made on the tracer and its spans in a
  log, in the order the calls are made, and passes that log through the plugin's functions.
  A promise is represented by the way it settles.
\<close>

subsection \<open>Values\<close>

datatype json =
    JNull
  | JBool bool
  | JNum int
  | JStr string
  | JArr "json list"
  | JObj "(string \<times> json) list"

text \<open>An attribute value as the plugin passes it; \<open>AUndefined\<close> is JavaScript's undefined.\<close>

datatype attr = AString string | ANumber int | ABool bool | AUndefined

type_synonym Attributes = "(string \<times> attr) list"

datatype error = TypeError string | Error string

text \<open>
  How a promise settles: fulfilled with a value, rejected with an error, or never
  (\<open>Pending\<close>: the promise stays pending for ever).
\<close>

datatype 'a promise = Resolved 'a | Rejected error | Pending

datatype signal = AbortSignal nat

datatype tracer = Tracer string

type_synonym span = nat

text \<open>
  A context is \<open>otel.context.active()\<close> or the result of \<open>otel.trace.setSpan\<close> on a
  context and a span.
\<close>

datatype otel_context = active | setSpan otel_context span

datatype span_context = SpanContext span

subsection \<open>The log of the calls the plugin makes\<close>

text \<open>
  The calls on the tracer and on spans, and the calls of \<open>prev\<close>, in the order
  they are made. \<open>nextSpan\<close> numbers the span objects the tracer hands out.
\<close>

type_synonym api = "string \<Rightarrow> json \<Rightarrow> signal option \<Rightarrow> json promise"

datatype call =
    StartSpan tracer span string Attributes otel_context
  | StartActiveSpan tracer span string
  | AddEvent span string Attributes
  | SetAttribute span string attr
  | End span
  | Prev string json "signal option"

record tstate =
  calls :: "call list"
  nextSpan :: span

text \<open>\<open>tracer.startSpan(name, options, context)\<close>: a new span object is returned.\<close>

definition startSpan ::
  "tracer \<Rightarrow> string \<Rightarrow> Attributes \<Rightarrow> otel_context \<Rightarrow> 'a tstate_scheme
    \<Rightarrow> span \<times> 'a tstate_scheme" where
  "startSpan tracer name options c s =
     (nextSpan s,
      s\<lparr>calls := calls s @ [StartSpan tracer (nextSpan s) name options c],
        nextSpan := Suc (nextSpan s)\<rparr>)"

text \<open>\<open>tracer.startActiveSpan(name, fn)\<close>: the new span is handed to \<open>fn\<close>.\<close>

definition startActiveSpan ::
  "tracer \<Rightarrow> string \<Rightarrow> 'a tstate_scheme \<Rightarrow> span \<times> 'a tstate_scheme" where
  "startActiveSpan tracer name s =
     (nextSpan s,
      s\<lparr>calls := calls s @ [StartActiveSpan tracer (nextSpan s) name],
        nextSpan := Suc (nextSpan s)\<rparr>)"

definition addEvent :: "span \<Rightarrow> string \<Rightarrow> Attributes \<Rightarrow> 'a tstate_scheme \<Rightarrow> 'a tstate_scheme" where
  "addEvent span name attributes s = s\<lparr>calls := calls s @ [AddEvent span name attributes]\<rparr>"

definition setAttribute :: "span \<Rightarrow> string \<Rightarrow> attr \<Rightarrow> 'a tstate_scheme \<Rightarrow> 'a tstate_scheme" where
  "setAttribute span key v s = s\<lparr>calls := calls s @ [SetAttribute span key v]\<rparr>"

text \<open>\<open>span.end()\<close>.\<close>

definition spanEnd :: "span \<Rightarrow> 'a tstate_scheme \<Rightarrow> 'a tstate_scheme" where
  "spanEnd span s = s\<lparr>calls := calls s @ [End span]\<rparr>"

text \<open>\<open>prev(method, payload, signal)\<close>, with the promise it returns.\<close>

definition invoke ::
  "api \<Rightarrow> string \<Rightarrow> json \<Rightarrow> signal option \<Rightarrow> 'a tstate_scheme
    \<Rightarrow> json promise \<times> 'a tstate_scheme" where
  "invoke prev method payload signal s =
     (prev method payload signal, s\<lparr>calls := calls s @ [Prev method payload signal]\<rparr>)"

subsection \<open>\<open>await\<close>\<close>

text \<open>
  \<open>await p; rest\<close> inside an async function: \<open>rest\<close> runs with the value when \<open>p\<close>
  is fulfilled; when \<open>p\<close> is rejected the async function's own promise is rejected with
  the same error and \<open>rest\<close> does not run; when \<open>p\<close> never settles, neither does the
  function.
\<close>

definition await ::
  "'a promise \<times> 's \<Rightarrow> ('a \<Rightarrow> 's \<Rightarrow> 'b promise \<times> 's) \<Rightarrow> 'b promise \<times> 's" where
  "await m rest =
     (case m of
        (Resolved v, s) \<Rightarrow> rest v s
      | (Rejected e, s) \<Rightarrow> (Rejected e, s)
      | (Pending, s) \<Rightarrow> (Pending, s))"

text \<open>
  \<open>try { await p } catch (e) { recover }\<close>: \<open>recover\<close> runs with the error when
  \<open>p\<close> is rejected.
\<close>

definition tryCatch ::
  "'a promise \<times> 's \<Rightarrow> (error \<Rightarrow> 's \<Rightarrow> 'a promise \<times> 's) \<Rightarrow> 'a promise \<times> 's" where
  "tryCatch m recover =
     (case m of
        (Resolved v, s) \<Rightarrow> (Resolved v, s)
      | (Rejected e, s) \<Rightarrow> recover e s
      | (Pending, s) \<Rightarrow> (Pending, s))"

subsection \<open>\<open>updateType\<close>\<close>

text \<open>
  An object is the list of its own enumerable properties in the order \<open>Object.keys\<close>
  lists them. \<open>xs[0]\<close> of an empty array is undefined (\<open>None\<close>), not an error.
\<close>

type_synonym Update = "(string \<times> json) list"

definition Object_keys :: "(string \<times> json) list \<Rightarrow> string list" where
  "Object_keys obj = map fst obj"

fun index0 :: "'a list \<Rightarrow> 'a option" where
  "index0 [] = None"
| "index0 (x # xs) = Some x"

definition updateType :: "Update \<Rightarrow> string option" where
  "updateType update = index0 (filter (\<lambda>k. k \<noteq> ''update_id'') (Object_keys update))"

text \<open>A possibly undefined string inside a template literal, and as an attribute value.\<close>

fun template :: "string option \<Rightarrow> string" where
  "template None = ''undefined''"
| "template (Some k) = k"

fun attrOf :: "string option \<Rightarrow> attr" where
  "attrOf None = AUndefined"
| "attrOf (Some k) = AString k"

subsection \<open>\<open>openTelemetryTransformer\<close>\<close>

record TransformerOptions =
  skip :: "string \<Rightarrow> json \<Rightarrow> bool"

definition defaultOptions :: TransformerOptions where
  "defaultOptions = \<lparr>skip = (\<lambda>method payload. False)\<rparr>"

text \<open>
  \<open>JSON_stringify\<close> stands for \<open>JSON.stringify\<close>, taken to return a string for
  every value it is given. The promise the transformer returns
  is made by \<open>new Promise((resolve) => ...)\<close>: it is fulfilled only by the \<open>resolve\<close> in
  the \<open>then\<close> callback, which runs when \<open>prev\<close>'s promise is fulfilled; no callback is
  registered for a rejection.
\<close>

definition openTelemetryTransformer ::
  "(json \<Rightarrow> string) \<Rightarrow> tracer \<Rightarrow> TransformerOptions \<Rightarrow> api \<Rightarrow> string \<Rightarrow> json
    \<Rightarrow> signal option \<Rightarrow> 'a tstate_scheme \<Rightarrow> json promise \<times> 'a tstate_scheme" where
  "openTelemetryTransformer JSON_stringify tracer options prev method payload signal s =
     (if skip options method payload then invoke prev method payload signal s
      else
        let (span, s1) = startActiveSpan tracer (''api.'' @ method) s;
            s2 = addEvent span ''api.request'' [(''body'', AString (JSON_stringify payload))] s1;
            s3 = setAttribute span ''api.method'' (AString method) s2
        in case invoke prev method payload signal s3 of
             (Resolved response, s4) \<Rightarrow>
               (Resolved response,
                spanEnd span
                  (addEvent span ''api.response''
                     [(''body'', AString (JSON_stringify response))] s4))
           | (Rejected e, s4) \<Rightarrow> (Pending, s4)
           | (Pending, s4) \<Rightarrow> (Pending, s4))"

subsection \<open>The state of one update\<close>

text \<open>
  \<open>ctx.openTelemetry\<close> holds the three data fields and the function \<open>trace\<close>; the
  function is the definition \<open>trace\<close> below. Before the middleware assigns it, the
  property is undefined (\<open>None\<close>). \<open>otContext\<close> is the middleware's local variable
  of that name, shared by the two closures that the middleware creates.
\<close>

record OpenTelemetryContext =
  ot_tracer :: tracer
  ot_context :: otel_context
  ot_spanContext :: span_context

record ustate = tstate +
  otContext :: otel_context
  ctx_openTelemetry :: "OpenTelemetryContext option"

text \<open>
  The transformer that the middleware installs with \<open>ctx.api.config.use\<close>
  (lines 220 to 228).
\<close>

definition updateTransformer ::
  "(json \<Rightarrow> string) \<Rightarrow> tracer \<Rightarrow> api \<Rightarrow> string \<Rightarrow> json \<Rightarrow> signal option
    \<Rightarrow> ustate \<Rightarrow> json promise \<times> ustate" where
  "updateTransformer JSON_stringify tracer prev method payload signal s =
     (let (apiSpan, s1) = startSpan tracer (''api.'' @ method) [] (otContext s) s;
          s2 = addEvent apiSpan ''api.request''
                 [(''body'', AString (JSON_stringify payload))] s1;
          s3 = setAttribute apiSpan ''api.method'' (AString method) s2
      in await (invoke prev method payload signal s3)
           (\<lambda>response s4.
              (Resolved response,
               spanEnd apiSpan
                 (addEvent apiSpan ''api.response''
                    [(''body'', AString (JSON_stringify response))] s4))))"

text \<open>
  \<open>ctx.openTelemetry.trace\<close> (lines 237 to 246). Reading \<open>ctx.openTelemetry.context\<close>
  while \<open>ctx.openTelemetry\<close> is undefined is a TypeError.
\<close>

definition trace ::
  "tracer \<Rightarrow> string \<Rightarrow> Attributes \<Rightarrow> (span \<Rightarrow> ustate \<Rightarrow> unit promise \<times> ustate)
    \<Rightarrow> ustate \<Rightarrow> unit promise \<times> ustate" where
  "trace tracer name attributes fn s =
     (case ctx_openTelemetry s of
        None \<Rightarrow> (Rejected (TypeError ''ctx.openTelemetry is undefined''), s)
      | Some ot \<Rightarrow>
          let (customSpan, s1) = startSpan tracer name attributes (ot_context ot) s;
              s2 = s1\<lparr>otContext := setSpan (otContext s1) customSpan\<rparr>
          in await (fn customSpan s2)
               (\<lambda>_ s3. (Resolved (), spanEnd customSpan s3)))"

subsection \<open>Downstream handlers\<close>

text \<open>
  What the rest of the middleware chain (\<open>next\<close>) and the function given to \<open>trace\<close> do,
  as far as the plugin sees it. Every call is awaited before the handler goes on:
  \<^item> \<open>Return\<close>: the handler returns;
  \<^item> \<open>Throw e\<close>: it throws \<open>e\<close>;
  \<^item> \<open>Hang\<close>: it awaits a promise that never settles;
  \<^item> \<open>Api method payload signal rest\<close>: it awaits a call of the API through \<open>ctx.api\<close>,
    then does \<open>rest\<close>;
  \<^item> \<open>Trace name attributes body rest\<close>: it awaits
    \<open>ctx.openTelemetry.trace(name, attributes, async (span) => body)\<close>, then does \<open>rest\<close>;
  \<^item> \<open>TryCatch body recover rest\<close>: it does \<open>body\<close> inside \<open>try\<close>, does
    \<open>recover\<close> if \<open>body\<close> threw, then does \<open>rest\<close>.
  Calls that are started and not awaited are outside this model.
\<close>

datatype handler =
    Return
  | Throw error
  | Hang
  | Api string json "signal option" handler
  | Trace string Attributes handler handler
  | TryCatch handler handler handler

primrec run :: "(json \<Rightarrow> string) \<Rightarrow> tracer \<Rightarrow> api \<Rightarrow> handler \<Rightarrow> ustate \<Rightarrow> unit promise \<times> ustate" where
  "run JSON_stringify tracer prev Return s = (Resolved (), s)"
| "run JSON_stringify tracer prev (Throw e) s = (Rejected e, s)"
| "run JSON_stringify tracer prev Hang s = (Pending, s)"
| "run JSON_stringify tracer prev (Api method payload signal rest) s =
     await (updateTransformer JSON_stringify tracer prev method payload signal s)
       (\<lambda>response. run JSON_stringify tracer prev rest)"
| "run JSON_stringify tracer prev (Trace name attributes body rest) s =
     await (trace tracer name attributes (\<lambda>customSpan. run JSON_stringify tracer prev body) s)
       (\<lambda>_. run JSON_stringify tracer prev rest)"
| "run JSON_stringify tracer prev (TryCatch body recover rest) s =
     await (tryCatch (run JSON_stringify tracer prev body s)
              (\<lambda>e. run JSON_stringify tracer prev recover))
       (\<lambda>_. run JSON_stringify tracer prev rest)"

subsection \<open>The middleware \<open>openTelemetry\<close>\<close>

text \<open>
  Lines 214 to 251, in two parts. \<open>install\<close> is everything the middleware does before
  \<open>await next()\<close> (lines 215 to 247): it returns the root span and the state in which
  \<open>next\<close> is called. \<open>tracer.startSpan(name, {root: true})\<close> is given no context,
  which is the active one. The transformer installed with \<open>ctx.api.config.use\<close> is
  \<open>updateTransformer\<close>: \<open>run\<close> sends every API call of the handler through it.
\<close>

definition install ::
  "(json \<Rightarrow> string) \<Rightarrow> tracer \<Rightarrow> Update \<Rightarrow> ustate \<Rightarrow> span \<times> ustate" where
  "install JSON_stringify tracer update s =
     (let (rootSpan, s1) =
            startSpan tracer (''update.'' @ template (updateType update))
              [(''root'', ABool True)] active s;
          s2 = s1\<lparr>otContext := setSpan active rootSpan\<rparr>;
          s3 = setAttribute rootSpan ''update.type'' (attrOf (updateType update)) s2;
          s4 = setAttribute rootSpan ''update.body'' (AString (JSON_stringify (JObj update))) s3;
          s5 = s4\<lparr>ctx_openTelemetry :=
                   Some \<lparr>ot_tracer = tracer,
                         ot_context = setSpan active rootSpan,
                         ot_spanContext = SpanContext rootSpan\<rparr>\<rparr>
      in (rootSpan, s5))"

definition openTelemetry ::
  "(json \<Rightarrow> string) \<Rightarrow> tracer \<Rightarrow> api \<Rightarrow> Update \<Rightarrow> handler \<Rightarrow> ustate
    \<Rightarrow> unit promise \<times> ustate" where
  "openTelemetry JSON_stringify tracer prev update next s =
     (let (rootSpan, s5) = install JSON_stringify tracer update s
      in await (run JSON_stringify tracer prev next s5)
           (\<lambda>_ s6. (Resolved (), spanEnd rootSpan s6)))"

subsection \<open>Sample data\<close>

definition placeholder :: "json \<Rightarrow> string" where
  "placeholder j = ''<json>''"

definition ok_api :: api where
  "ok_api method payload signal = Resolved (JBool True)"

definition failing_api :: api where
  "failing_api method payload signal = Rejected (Error ''400: Bad Request'')"

definition t0 :: tstate where
  "t0 = \<lparr>calls = [], nextSpan = 0\<rparr>"

definition u0 :: ustate where
  "u0 = \<lparr>calls = [], nextSpan = 0, otContext = active, ctx_openTelemetry = None\<rparr>"

definition message_update :: Update where
  "message_update = [(''update_id'', JNum 1), (''message'', JObj [(''text'', JStr ''hi'')])]"


definition skipPolling :: TransformerOptions where
  "skipPolling = \<lparr>skip = (\<lambda>method payload. method = ''getUpdates'')\<rparr>"

text \<open>
  The state in which the middleware calls \<open>next\<close> for \<open>message_update\<close>, started
  from \<open>u0\<close> with the tracer \<open>Tracer ''grammy-otel''\<close>.
\<close>

definition u1 :: ustate where
  "u1 = \<lparr>calls =
            [StartSpan (Tracer ''grammy-otel'') 0 ''update.message'' [(''root'', ABool True)] active,
             SetAttribute 0 ''update.type'' (AString ''message''),
             SetAttribute 0 ''update.body'' (AString ''<json>'')],
          nextSpan = 1, otContext = setSpan active 0,
          ctx_openTelemetry =
            Some \<lparr>ot_tracer = Tracer ''grammy-otel'', ot_context = setSpan active 0,
                  ot_spanContext = SpanContext 0\<rparr>\<rparr>"

subsection \<open>Predicates used in the statements\<close>

text \<open>
  \<open>tracer.startSpan\<close> reads its second argument as the span's options; a span is a
  root span when the option \<open>root\<close> is truthy.
\<close>

fun truthy :: "attr option \<Rightarrow> bool" where
  "truthy None = False"
| "truthy (Some (AString v)) = (v \<noteq> [])"
| "truthy (Some (ANumber n)) = (n \<noteq> 0)"
| "truthy (Some (ABool b)) = b"
| "truthy (Some AUndefined) = False"

fun rootOption :: "call \<Rightarrow> bool" where
  "rootOption (StartSpan tracer span name options c) = truthy (map_of options ''root'')"
| "rootOption _ = False"

text \<open>The handler gives \<open>trace\<close> no attribute \<open>root\<close> with a truthy value.\<close>

fun noRootAttribute :: "handler \<Rightarrow> bool" where
  "noRootAttribute (Api method payload signal rest) = noRootAttribute rest"
| "noRootAttribute (Trace name attributes body rest) =
     (\<not> truthy (map_of attributes ''root'') \<and> noRootAttribute body \<and> noRootAttribute rest)"
| "noRootAttribute (TryCatch body recover rest) =
     (noRootAttribute body \<and> noRootAttribute recover \<and> noRootAttribute rest)"
| "noRootAttribute _ = True"

text \<open>
  \<open>extends s s'\<close>: the log of \<open>s'\<close> is the log of \<open>s\<close> with calls added at its end, none
  of which ends a span handed out before \<open>s\<close>; no span number is reused; and
  \<open>ctx.openTelemetry\<close> is the same.
\<close>

definition extends :: "ustate \<Rightarrow> ustate \<Rightarrow> bool" where
  "extends s s' =
     (\<exists>new. calls s' = calls s @ new \<and> (\<forall>span. End span \<in> set new \<longrightarrow> nextSpan s \<le> span)
        \<and> nextSpan s \<le> nextSpan s' \<and> ctx_openTelemetry s' = ctx_openTelemetry s)"

section \<open>Properties\<close>

subsection \<open>The transformers and \<open>trace\<close> in closed form\<close>

lemma updateTransformer_eq:
  "updateTransformer js tracer prev m p g s =
    (case prev m p g of
       Resolved r \<Rightarrow> (Resolved r, s\<lparr>calls := calls s @
          [StartSpan tracer (nextSpan s) (''api.'' @ m) [] (otContext s),
           AddEvent (nextSpan s) ''api.request'' [(''body'', AString (js p))],
           SetAttribute (nextSpan s) ''api.method'' (AString m),
           Prev m p g,
           AddEvent (nextSpan s) ''api.response'' [(''body'', AString (js r))],
           End (nextSpan s)], nextSpan := Suc (nextSpan s)\<rparr>)
     | Rejected e \<Rightarrow> (Rejected e, s\<lparr>calls := calls s @
          [StartSpan tracer (nextSpan s) (''api.'' @ m) [] (otContext s),
           AddEvent (nextSpan s) ''api.request'' [(''body'', AString (js p))],
           SetAttribute (nextSpan s) ''api.method'' (AString m),
           Prev m p g], nextSpan := Suc (nextSpan s)\<rparr>)
     | Pending \<Rightarrow> (Pending, s\<lparr>calls := calls s @
          [StartSpan tracer (nextSpan s) (''api.'' @ m) [] (otContext s),
           AddEvent (nextSpan s) ''api.request'' [(''body'', AString (js p))],
           SetAttribute (nextSpan s) ''api.method'' (AString m),
           Prev m p g], nextSpan := Suc (nextSpan s)\<rparr>))"
  by (simp add: updateTransformer_def startSpan_def addEvent_def setAttribute_def invoke_def
        spanEnd_def await_def split: promise.splits)

lemma trace_eq:
  "trace tracer name attributes fn s =
    (case ctx_openTelemetry s of
       None \<Rightarrow> (Rejected (TypeError ''ctx.openTelemetry is undefined''), s)
     | Some ot \<Rightarrow>
         await (fn (nextSpan s)
                 (s\<lparr>calls := calls s @ [StartSpan tracer (nextSpan s) name attributes (ot_context ot)],
                    nextSpan := Suc (nextSpan s),
                    otContext := setSpan (otContext s) (nextSpan s)\<rparr>))
           (\<lambda>_ s3. (Resolved (), s3\<lparr>calls := calls s3 @ [End (nextSpan s)]\<rparr>)))"
  by (simp add: trace_def startSpan_def spanEnd_def split: option.splits)

lemma openTelemetryTransformer_eq:
  "\<not> skip options m p \<Longrightarrow>
   openTelemetryTransformer js tracer options prev m p g s =
    (case prev m p g of
       Resolved r \<Rightarrow> (Resolved r, s\<lparr>calls := calls s @
          [StartActiveSpan tracer (nextSpan s) (''api.'' @ m),
           AddEvent (nextSpan s) ''api.request'' [(''body'', AString (js p))],
           SetAttribute (nextSpan s) ''api.method'' (AString m),
           Prev m p g,
           AddEvent (nextSpan s) ''api.response'' [(''body'', AString (js r))],
           End (nextSpan s)], nextSpan := Suc (nextSpan s)\<rparr>)
     | Rejected e \<Rightarrow> (Pending, s\<lparr>calls := calls s @
          [StartActiveSpan tracer (nextSpan s) (''api.'' @ m),
           AddEvent (nextSpan s) ''api.request'' [(''body'', AString (js p))],
           SetAttribute (nextSpan s) ''api.method'' (AString m),
           Prev m p g], nextSpan := Suc (nextSpan s)\<rparr>)
     | Pending \<Rightarrow> (Pending, s\<lparr>calls := calls s @
          [StartActiveSpan tracer (nextSpan s) (''api.'' @ m),
           AddEvent (nextSpan s) ''api.request'' [(''body'', AString (js p))],
           SetAttribute (nextSpan s) ''api.method'' (AString m),
           Prev m p g], nextSpan := Suc (nextSpan s)\<rparr>))"
  by (simp add: openTelemetryTransformer_def startActiveSpan_def addEvent_def setAttribute_def
        invoke_def spanEnd_def split: promise.splits)

lemma install_eq:
  "install js tracer update s =
     (nextSpan s,
      s\<lparr>calls := calls s @
           [StartSpan tracer (nextSpan s) (''update.'' @ template (updateType update))
              [(''root'', ABool True)] active,
            SetAttribute (nextSpan s) ''update.type'' (attrOf (updateType update)),
            SetAttribute (nextSpan s) ''update.body'' (AString (js (JObj update)))],
        nextSpan := Suc (nextSpan s),
        otContext := setSpan active (nextSpan s),
        ctx_openTelemetry :=
          Some \<lparr>ot_tracer = tracer, ot_context = setSpan active (nextSpan s),
                ot_spanContext = SpanContext (nextSpan s)\<rparr>\<rparr>)"
  by (simp add: install_def startSpan_def setAttribute_def)

lemma openTelemetry_eq:
  "openTelemetry js tracer prev update next s =
     (case run js tracer prev next (snd (install js tracer update s)) of
        (Resolved v, s6) \<Rightarrow> (Resolved (), s6\<lparr>calls := calls s6 @ [End (nextSpan s)]\<rparr>)
      | (Rejected e, s6) \<Rightarrow> (Rejected e, s6)
      | (Pending, s6) \<Rightarrow> (Pending, s6))"
  by (simp add: openTelemetry_def install_eq await_def spanEnd_def split: prod.splits promise.splits)

lemma install_message_update:
  "install placeholder (Tracer ''grammy-otel'') message_update u0 = (0, u1)"
  by (simp add: install_eq u0_def u1_def message_update_def updateType_def Object_keys_def
        placeholder_def)

subsection \<open>What a handler can do to the state\<close>

lemma extends_refl: "extends s s"
  by (simp add: extends_def)

lemma extends_trans: "extends s s' \<Longrightarrow> extends s' s'' \<Longrightarrow> extends s s''"
  unfolding extends_def by (elim exE conjE) (rule exI[of _ "_ @ _"], auto)

lemma extends_updateTransformer: "extends s (snd (updateTransformer js tracer prev m p g s))"
  by (auto simp: updateTransformer_eq extends_def split: promise.splits)

lemma extends_await:
  assumes "extends s (snd m)" and "\<And>v. extends (snd m) (snd (k v (snd m)))"
  shows "extends s (snd (await m k))"
proof (cases m)
  case (Pair r s1)
  then show ?thesis
    using assms by (cases r) (auto simp: await_def intro: extends_trans)
qed

lemma extends_tryCatch:
  assumes "extends s (snd m)" and "\<And>e. extends (snd m) (snd (k e (snd m)))"
  shows "extends s (snd (tryCatch m k))"
proof (cases m)
  case (Pair r s1)
  then show ?thesis
    using assms by (cases r) (auto simp: tryCatch_def intro: extends_trans)
qed

lemma run_extends: "extends s (snd (run js tracer prev h s))"
proof (induction h arbitrary: s)
  case (TryCatch body recover rest)
  show ?case
    unfolding run.simps
    by (intro extends_await extends_tryCatch TryCatch.IH)
next
  case (Api m p g rest)
  obtain r1 s1 where u: "updateTransformer js tracer prev m p g s = (r1, s1)"
    by (cases "updateTransformer js tracer prev m p g s")
  have e1: "extends s s1"
    using extends_updateTransformer[of s js tracer prev m p g] u by simp
  show ?case
  proof (cases r1)
    case (Resolved v)
    then have "snd (run js tracer prev (Api m p g rest) s) = snd (run js tracer prev rest s1)"
      using u by (simp add: await_def)
    then show ?thesis using e1 Api.IH[of s1] extends_trans by metis
  qed (use u e1 in \<open>simp_all add: await_def\<close>)
next
  case (Trace name attributes body rest)
  show ?case
  proof (cases "ctx_openTelemetry s")
    case None
    then show ?thesis by (simp add: trace_eq await_def extends_refl)
  next
    case (Some ot)
    define e where
      "e = s\<lparr>calls := calls s @ [StartSpan tracer (nextSpan s) name attributes (ot_context ot)],
             nextSpan := Suc (nextSpan s),
             otContext := setSpan (otContext s) (nextSpan s)\<rparr>"
    obtain r2 s2 where b: "run js tracer prev body e = (r2, s2)"
      by (cases "run js tracer prev body e")
    have se: "extends s e" by (simp add: e_def extends_def)
    have e2: "extends e s2" using Trace.IH(1)[of e] b by simp
    have s2: "extends s s2" using se e2 by (rule extends_trans)
    show ?thesis
    proof (cases r2)
      case (Resolved v)
      define s3 where "s3 = s2\<lparr>calls := calls s2 @ [End (nextSpan s)]\<rparr>"
      have s3: "extends s s3" using s2 by (auto simp: s3_def extends_def)
      have "snd (run js tracer prev (Trace name attributes body rest) s) = snd (run js tracer prev rest s3)"
        using Some b Resolved by (simp add: trace_eq await_def e_def s3_def)
      then show ?thesis using s3 Trace.IH(2)[of s3] extends_trans by metis
    qed (use Some b s2 in \<open>simp_all add: trace_eq await_def e_def\<close>)
  qed
qed (simp_all add: extends_refl)

lemma extends_calls: "extends s s' \<Longrightarrow> take (length (calls s)) (calls s') = calls s"
  by (auto simp: extends_def)

lemma extends_no_earlier_End:
  "extends s s' \<Longrightarrow> sp < nextSpan s \<Longrightarrow> End sp \<notin> set (drop (length (calls s)) (calls s'))"
  by (auto simp: extends_def)

lemma run_no_root:
  "noRootAttribute h \<Longrightarrow>
   \<exists>new. calls (snd (run js tracer prev h s)) = calls s @ new \<and> filter rootOption new = []"
proof (induction h arbitrary: s)
  case (TryCatch body recover rest)
  obtain r1 s1 where b: "run js tracer prev body s = (r1, s1)"
    by (cases "run js tracer prev body s")
  obtain new1 where n1: "calls s1 = calls s @ new1" "filter rootOption new1 = []"
    using TryCatch.IH(1)[of s] TryCatch.prems b by auto
  obtain r2 s2 where c: "tryCatch (r1, s1) (\<lambda>e. run js tracer prev recover) = (r2, s2)"
    by (cases "tryCatch (r1, s1) (\<lambda>e. run js tracer prev recover)")
  have "s2 = s1 \<or> s2 = snd (run js tracer prev recover s1)"
    using c by (cases r1) (auto simp: tryCatch_def)
  then obtain new2 where n2: "calls s2 = calls s @ new2" "filter rootOption new2 = []"
    using n1 TryCatch.IH(2)[of s1] TryCatch.prems by auto
  have "snd (run js tracer prev (TryCatch body recover rest) s) = s2
      \<or> snd (run js tracer prev (TryCatch body recover rest) s) = snd (run js tracer prev rest s2)"
    using b c by (cases r2) (auto simp: await_def)
  then show ?case
    using n2 TryCatch.IH(3)[of s2] TryCatch.prems by auto
next
  case (Api m p g rest)
  obtain r1 s1 where u: "updateTransformer js tracer prev m p g s = (r1, s1)"
    by (cases "updateTransformer js tracer prev m p g s")
  have e1: "\<exists>new. calls s1 = calls s @ new \<and> filter rootOption new = []"
    using u by (auto simp: updateTransformer_eq split: promise.splits)
  show ?case
  proof (cases r1)
    case (Resolved v)
    then have "snd (run js tracer prev (Api m p g rest) s) = snd (run js tracer prev rest s1)"
      using u by (simp add: await_def)
    moreover obtain new' where
      "calls (snd (run js tracer prev rest s1)) = calls s1 @ new'" "filter rootOption new' = []"
      using Api.IH[of s1] Api.prems by auto
    ultimately show ?thesis using e1 by auto
  qed (use u e1 in \<open>simp_all add: await_def\<close>)
next
  case (Trace name attributes body rest)
  show ?case
  proof (cases "ctx_openTelemetry s")
    case None
    then show ?thesis by (simp add: trace_eq await_def)
  next
    case (Some ot)
    define e where
      "e = s\<lparr>calls := calls s @ [StartSpan tracer (nextSpan s) name attributes (ot_context ot)],
             nextSpan := Suc (nextSpan s),
             otContext := setSpan (otContext s) (nextSpan s)\<rparr>"
    obtain r2 s2 where b: "run js tracer prev body e = (r2, s2)"
      by (cases "run js tracer prev body e")
    obtain new2 where n2: "calls s2 = calls e @ new2" "filter rootOption new2 = []"
      using Trace.IH(1)[of e] Trace.prems b by auto
    have s2: "\<exists>new. calls s2 = calls s @ new \<and> filter rootOption new = []"
      using n2 Trace.prems by (auto simp: e_def)
    show ?thesis
    proof (cases r2)
      case (Resolved v)
      define s3 where "s3 = s2\<lparr>calls := calls s2 @ [End (nextSpan s)]\<rparr>"
      have s3: "\<exists>new. calls s3 = calls s @ new \<and> filter rootOption new = []"
        using s2 by (auto simp: s3_def)
      have "snd (run js tracer prev (Trace name attributes body rest) s) = snd (run js tracer prev rest s3)"
        using Some b Resolved by (simp add: trace_eq await_def e_def s3_def)
      moreover obtain new' where
        "calls (snd (run js tracer prev rest s3)) = calls s3 @ new'" "filter rootOption new' = []"
        using Trace.IH(2)[of s3] Trace.prems by auto
      ultimately show ?thesis using s3 by auto
    qed (use Some b s2 in \<open>simp_all add: trace_eq await_def e_def\<close>)
  qed
qed simp_all

subsection \<open>Spans opened by \<open>trace\<close>\<close>

text \<open>
  C1, as the code has it. \<open>trace\<close> is called while \<open>ctx.openTelemetry\<close> is set, with
  a function whose body is the handler \<open>body\<close>. The body runs in the state \<open>entered\<close>
  (the span is started and \<open>otContext\<close> points at it) and leaves the outcome \<open>r\<close> and
  the state \<open>s3\<close>. The body's calls come after those of \<open>entered\<close> and none of them ends
  the span. When the body's promise is fulfilled, \<open>trace\<close> ends the span, as its last
  call, and its own promise is fulfilled: the span is ended exactly once. When the body's
  promise is rejected, \<open>trace\<close>'s promise is rejected with the same error and the span is
  not ended; when it never settles, neither does \<open>trace\<close>, and the span is not ended.
\<close>

theorem trace_ends_span_iff_fn_resolves:
  assumes "ctx_openTelemetry s = Some ot"
  shows "let customSpan = nextSpan s;
             entered = s\<lparr>calls := calls s @ [StartSpan tracer customSpan name attributes (ot_context ot)],
                         nextSpan := Suc customSpan,
                         otContext := setSpan (otContext s) customSpan\<rparr>;
             (r, s3) = run js tracer prev body entered
         in take (length (calls entered)) (calls s3) = calls entered
            \<and> End customSpan \<notin> set (drop (length (calls entered)) (calls s3))
            \<and> trace tracer name attributes (\<lambda>sp. run js tracer prev body) s =
                (case r of
                   Resolved _ \<Rightarrow> (Resolved (), s3\<lparr>calls := calls s3 @ [End customSpan]\<rparr>)
                 | Rejected e \<Rightarrow> (Rejected e, s3)
                 | Pending \<Rightarrow> (Pending, s3))"
proof -
  define entered where
    "entered = s\<lparr>calls := calls s @ [StartSpan tracer (nextSpan s) name attributes (ot_context ot)],
                 nextSpan := Suc (nextSpan s),
                 otContext := setSpan (otContext s) (nextSpan s)\<rparr>"
  obtain r s3 where b: "run js tracer prev body entered = (r, s3)"
    by (cases "run js tracer prev body entered")
  have e: "extends entered s3"
    using run_extends[of entered js tracer prev body] b by simp
  have 1: "take (length (calls entered)) (calls s3) = calls entered"
    using e by (rule extends_calls)
  have 2: "End (nextSpan s) \<notin> set (drop (length (calls entered)) (calls s3))"
    using e by (rule extends_no_earlier_End) (simp add: entered_def)
  have 3: "trace tracer name attributes (\<lambda>sp. run js tracer prev body) s =
             (case r of
                Resolved _ \<Rightarrow> (Resolved (), s3\<lparr>calls := calls s3 @ [End (nextSpan s)]\<rparr>)
              | Rejected e \<Rightarrow> (Rejected e, s3)
              | Pending \<Rightarrow> (Pending, s3))"
    using assms b by (simp add: trace_eq await_def entered_def[symmetric] split: promise.splits)
  show ?thesis
    using 1 2 3 b unfolding Let_def entered_def[symmetric] by simp
qed

theorem trace_ends_span_iff_fn_resolves_witness:
  "ctx_openTelemetry u1 =
     Some \<lparr>ot_tracer = Tracer ''grammy-otel'', ot_context = setSpan active 0,
           ot_spanContext = SpanContext 0\<rparr>
   \<and> trace (Tracer ''grammy-otel'') ''step1'' []
       (\<lambda>sp. run placeholder (Tracer ''grammy-otel'') ok_api Return) u1
       = (Resolved (),
          u1\<lparr>calls := calls u1 @
               [StartSpan (Tracer ''grammy-otel'') 1 ''step1'' [] (setSpan active 0), End 1],
             nextSpan := 2, otContext := setSpan (setSpan active 0) 1\<rparr>)
   \<and> trace (Tracer ''grammy-otel'') ''step1'' []
       (\<lambda>sp. run placeholder (Tracer ''grammy-otel'') ok_api (Throw (Error ''boom''))) u1
       = (Rejected (Error ''boom''),
          u1\<lparr>calls := calls u1 @
               [StartSpan (Tracer ''grammy-otel'') 1 ''step1'' [] (setSpan active 0)],
             nextSpan := 2, otContext := setSpan (setSpan active 0) 1\<rparr>)"
  using trace_ends_span_iff_fn_resolves
          [of u1 _ "Tracer ''grammy-otel''" "''step1''" "[]" placeholder ok_api Return]
    trace_ends_span_iff_fn_resolves
          [of u1 _ "Tracer ''grammy-otel''" "''step1''" "[]" placeholder ok_api
              "Throw (Error ''boom'')"]
  by (simp add: u1_def)

text \<open>
  C1 as the specification states it fails where the function throws: \<open>trace(''step1'', {}, fn)\<close>
  with a throwing \<open>fn\<close> rejects with the error and the log holds no \<open>End\<close> of the span.
\<close>

theorem trace_throw_counterexample:
  "fst (trace (Tracer ''grammy-otel'') ''step1'' []
         (\<lambda>sp. run placeholder (Tracer ''grammy-otel'') ok_api (Throw (Error ''boom''))) u1)
     = Rejected (Error ''boom'')
   \<and> count_list (calls (snd (trace (Tracer ''grammy-otel'') ''step1'' []
         (\<lambda>sp. run placeholder (Tracer ''grammy-otel'') ok_api (Throw (Error ''boom''))) u1)))
       (End 1) = 0"
  by (simp add: trace_eq await_def u1_def)

subsection \<open>Spans opened for API calls\<close>

text \<open>
  C3, as the code has it. For a call that \<open>skip\<close> does not match, in the standalone
  transformer (state \<open>s\<close>) and in the transformer of an update (state \<open>u\<close>): when
  the promise of \<open>prev\<close> is fulfilled, the span opened for the call is ended exactly
  once, and that is the last call made; when the promise of \<open>prev\<close> is rejected or never
  settles, the span opened for the call is not ended.
\<close>

theorem api_span_ended_iff_call_resolves:
  assumes "\<not> skip options method payload"
  shows "(case prev method payload signal of
            Resolved response \<Rightarrow>
              count_list (drop (length (calls s))
                 (calls (snd (openTelemetryTransformer js tracer options prev method payload signal s))))
                 (End (nextSpan s)) = 1
              \<and> last (calls (snd (openTelemetryTransformer js tracer options prev method payload signal s)))
                  = End (nextSpan s)
              \<and> count_list (drop (length (calls u))
                   (calls (snd (updateTransformer js tracer prev method payload signal u))))
                   (End (nextSpan u)) = 1
              \<and> last (calls (snd (updateTransformer js tracer prev method payload signal u)))
                  = End (nextSpan u)
          | Rejected e \<Rightarrow>
              count_list (drop (length (calls s))
                 (calls (snd (openTelemetryTransformer js tracer options prev method payload signal s))))
                 (End (nextSpan s)) = 0
              \<and> count_list (drop (length (calls u))
                   (calls (snd (updateTransformer js tracer prev method payload signal u))))
                   (End (nextSpan u)) = 0
          | Pending \<Rightarrow>
              count_list (drop (length (calls s))
                 (calls (snd (openTelemetryTransformer js tracer options prev method payload signal s))))
                 (End (nextSpan s)) = 0
              \<and> count_list (drop (length (calls u))
                   (calls (snd (updateTransformer js tracer prev method payload signal u))))
                   (End (nextSpan u)) = 0)"
  using assms
  by (simp add: openTelemetryTransformer_eq updateTransformer_eq split: promise.splits)

theorem api_span_ended_iff_call_resolves_witness:
  "\<not> skip defaultOptions ''sendMessage'' (JObj [(''text'', JStr ''hi'')])
   \<and> calls (snd (openTelemetryTransformer placeholder (Tracer ''grammy-otel'') defaultOptions ok_api
        ''sendMessage'' (JObj [(''text'', JStr ''hi'')]) None t0))
      = [StartActiveSpan (Tracer ''grammy-otel'') 0 ''api.sendMessage'',
         AddEvent 0 ''api.request'' [(''body'', AString ''<json>'')],
         SetAttribute 0 ''api.method'' (AString ''sendMessage''),
         Prev ''sendMessage'' (JObj [(''text'', JStr ''hi'')]) None,
         AddEvent 0 ''api.response'' [(''body'', AString ''<json>'')],
         End 0]
   \<and> count_list (drop (length (calls u1))
        (calls (snd (updateTransformer placeholder (Tracer ''grammy-otel'') failing_api
           ''sendMessage'' (JObj [(''text'', JStr ''hi'')]) None u1)))) (End 1) = 0"
  using api_span_ended_iff_call_resolves
          [of defaultOptions "''sendMessage''" "JObj [(''text'', JStr ''hi'')]" t0 placeholder
              "Tracer ''grammy-otel''" ok_api None u1]
        api_span_ended_iff_call_resolves
          [of defaultOptions "''sendMessage''" "JObj [(''text'', JStr ''hi'')]" t0 placeholder
              "Tracer ''grammy-otel''" failing_api None u1]
  by (simp add: defaultOptions_def ok_api_def failing_api_def t0_def u1_def
        openTelemetryTransformer_eq updateTransformer_eq placeholder_def)

text \<open>
  C3 as the specification states it fails for a rejected call, in both variants: the
  span of the call is started and never ended.
\<close>

theorem rejected_call_leaves_span_open_counterexample:
  "fst (updateTransformer placeholder (Tracer ''grammy-otel'') failing_api
          ''sendMessage'' (JObj [(''text'', JStr ''hi'')]) None u1)
      = Rejected (Error ''400: Bad Request'')
   \<and> count_list
        (calls (snd (updateTransformer placeholder (Tracer ''grammy-otel'') failing_api
           ''sendMessage'' (JObj [(''text'', JStr ''hi'')]) None u1))) (End 1) = 0
   \<and> count_list
        (calls (snd (openTelemetryTransformer placeholder (Tracer ''grammy-otel'') defaultOptions
           failing_api ''sendMessage'' (JObj [(''text'', JStr ''hi'')]) None t0))) (End 0) = 0"
  by (simp add: defaultOptions_def failing_api_def t0_def u1_def
        openTelemetryTransformer_eq updateTransformer_eq placeholder_def)

text \<open>
  C6. For a call that \<open>skip\<close> does not match, the calls made by the standalone
  transformer (state \<open>s\<close>) and by the transformer of an update (state \<open>u\<close>)
  are exactly these, in this order: one span named \<open>api.<method>\<close> is started; one
  event \<open>api.request\<close> whose attribute \<open>body\<close> is the serialised payload is added;
  the attribute \<open>api.method\<close> is set to the method; \<open>prev\<close> is called with the
  same method, payload and signal; and, when the promise of \<open>prev\<close> is fulfilled, one
  event \<open>api.response\<close> whose attribute \<open>body\<close> is the serialised response is
  added and the span is ended. One span object is created. The attributes of the root
  span, set before \<open>next\<close> is called, are \<open>update.type\<close> and \<open>update.body\<close>.
\<close>

theorem api_call_span_contents:
  assumes "\<not> skip options method payload"
  shows "calls (snd (openTelemetryTransformer js tracer options prev method payload signal s))
         = calls s @
           [StartActiveSpan tracer (nextSpan s) (''api.'' @ method),
            AddEvent (nextSpan s) ''api.request'' [(''body'', AString (js payload))],
            SetAttribute (nextSpan s) ''api.method'' (AString method),
            Prev method payload signal] @
           (case prev method payload signal of
              Resolved response \<Rightarrow>
                [AddEvent (nextSpan s) ''api.response'' [(''body'', AString (js response))],
                 End (nextSpan s)]
            | Rejected e \<Rightarrow> []
            | Pending \<Rightarrow> [])
       \<and> nextSpan (snd (openTelemetryTransformer js tracer options prev method payload signal s))
         = Suc (nextSpan s)
       \<and> calls (snd (updateTransformer js tracer prev method payload signal u))
         = calls u @
           [StartSpan tracer (nextSpan u) (''api.'' @ method) [] (otContext u),
            AddEvent (nextSpan u) ''api.request'' [(''body'', AString (js payload))],
            SetAttribute (nextSpan u) ''api.method'' (AString method),
            Prev method payload signal] @
           (case prev method payload signal of
              Resolved response \<Rightarrow>
                [AddEvent (nextSpan u) ''api.response'' [(''body'', AString (js response))],
                 End (nextSpan u)]
            | Rejected e \<Rightarrow> []
            | Pending \<Rightarrow> [])
       \<and> nextSpan (snd (updateTransformer js tracer prev method payload signal u)) = Suc (nextSpan u)
       \<and> calls (snd (install js tracer update v))
         = calls v @
           [StartSpan tracer (nextSpan v) (''update.'' @ template (updateType update))
              [(''root'', ABool True)] active,
            SetAttribute (nextSpan v) ''update.type'' (attrOf (updateType update)),
            SetAttribute (nextSpan v) ''update.body'' (AString (js (JObj update)))]"
  using assms
  by (simp add: openTelemetryTransformer_eq updateTransformer_eq install_eq split: promise.splits)

theorem api_call_span_contents_witness:
  "\<not> skip skipPolling ''sendMessage'' (JObj [(''text'', JStr ''hi'')])
   \<and> calls (snd (openTelemetryTransformer placeholder (Tracer ''grammy-otel'') skipPolling ok_api
        ''sendMessage'' (JObj [(''text'', JStr ''hi'')]) None t0))
      = [StartActiveSpan (Tracer ''grammy-otel'') 0 ''api.sendMessage'',
         AddEvent 0 ''api.request'' [(''body'', AString (placeholder (JObj [(''text'', JStr ''hi'')])))],
         SetAttribute 0 ''api.method'' (AString ''sendMessage''),
         Prev ''sendMessage'' (JObj [(''text'', JStr ''hi'')]) None,
         AddEvent 0 ''api.response'' [(''body'', AString (placeholder (JBool True)))],
         End 0]
   \<and> calls (snd (updateTransformer placeholder (Tracer ''grammy-otel'') ok_api
        ''sendMessage'' (JObj [(''text'', JStr ''hi'')]) None u1))
      = calls u1 @
        [StartSpan (Tracer ''grammy-otel'') 1 ''api.sendMessage'' [] (setSpan active 0),
         AddEvent 1 ''api.request'' [(''body'', AString (placeholder (JObj [(''text'', JStr ''hi'')])))],
         SetAttribute 1 ''api.method'' (AString ''sendMessage''),
         Prev ''sendMessage'' (JObj [(''text'', JStr ''hi'')]) None,
         AddEvent 1 ''api.response'' [(''body'', AString (placeholder (JBool True)))],
         End 1]
   \<and> calls (snd (install placeholder (Tracer ''grammy-otel'') message_update u0))
      = [StartSpan (Tracer ''grammy-otel'') 0 ''update.message'' [(''root'', ABool True)] active,
         SetAttribute 0 ''update.type'' (AString ''message''),
         SetAttribute 0 ''update.body'' (AString (placeholder (JObj message_update)))]"
  using api_call_span_contents
          [of skipPolling "''sendMessage''" "JObj [(''text'', JStr ''hi'')]" placeholder
              "Tracer ''grammy-otel''" ok_api None t0 u1 message_update u0]
  by (simp add: skipPolling_def ok_api_def t0_def u1_def u0_def message_update_def
        updateType_def Object_keys_def)

text \<open>
  C8, evaluated where the code departs from it: \<open>prev\<close> rejects a call that the
  standalone transformer does not skip. The promise the standalone transformer returns
  never settles, while the transformer of an update rejects with the error of \<open>prev\<close>.
\<close>

theorem standalone_rejection_never_settles:
  "failing_api ''sendMessage'' (JObj [(''text'', JStr ''hi'')]) None
     = Rejected (Error ''400: Bad Request'')
   \<and> fst (openTelemetryTransformer placeholder (Tracer ''grammy-otel'') defaultOptions failing_api
        ''sendMessage'' (JObj [(''text'', JStr ''hi'')]) None t0) = Pending
   \<and> fst (updateTransformer placeholder (Tracer ''grammy-otel'') failing_api
        ''sendMessage'' (JObj [(''text'', JStr ''hi'')]) None u1)
     = Rejected (Error ''400: Bad Request'')"
  by (simp add: openTelemetryTransformer_eq updateTransformer_eq defaultOptions_def
        failing_api_def)

subsection \<open>Skipped calls\<close>

text \<open>
  C7. For a call that \<open>skip\<close> matches, the standalone transformer returns what
  \<open>prev\<close> returns for the same method, payload and signal; the call of \<open>prev\<close> is
  the only call it makes, and no span is created.
\<close>

theorem skipped_call_is_forwarded:
  assumes "skip options method payload"
  shows "fst (openTelemetryTransformer js tracer options prev method payload signal s)
           = prev method payload signal
       \<and> calls (snd (openTelemetryTransformer js tracer options prev method payload signal s))
           = calls s @ [Prev method payload signal]
       \<and> nextSpan (snd (openTelemetryTransformer js tracer options prev method payload signal s))
           = nextSpan s
       \<and> openTelemetryTransformer js tracer options prev method payload signal s
           = invoke prev method payload signal s"
  using assms by (simp add: openTelemetryTransformer_def invoke_def)

theorem skipped_call_is_forwarded_witness:
  "skip skipPolling ''getUpdates'' (JObj [(''offset'', JNum 7)])
   \<and> openTelemetryTransformer placeholder (Tracer ''grammy-otel'') skipPolling failing_api
        ''getUpdates'' (JObj [(''offset'', JNum 7)]) (Some (AbortSignal 3)) t0
     = (Rejected (Error ''400: Bad Request''),
        \<lparr>calls = [Prev ''getUpdates'' (JObj [(''offset'', JNum 7)]) (Some (AbortSignal 3))],
         nextSpan = 0\<rparr>)"
  using skipped_call_is_forwarded
          [of skipPolling "''getUpdates''" "JObj [(''offset'', JNum 7)]" placeholder
              "Tracer ''grammy-otel''" failing_api "Some (AbortSignal 3)" t0]
  by (simp add: skipPolling_def failing_api_def t0_def invoke_def)

subsection \<open>The root span\<close>

text \<open>
  C4, as the code has it. The middleware calls \<open>next\<close> in the state \<open>s5\<close> that
  \<open>install\<close> leaves; \<open>next\<close> leaves the outcome \<open>r\<close> and the state \<open>s6\<close>. The
  calls of \<open>next\<close> come after those of \<open>install\<close>, and nothing before \<open>next\<close>
  settles ends the root span. When the promise of \<open>next\<close> is fulfilled, the middleware
  ends the root span as its last call, after everything downstream, and its promise is
  fulfilled. When the promise of \<open>next\<close> is rejected, the middleware's promise is
  rejected with the same error, and the root span is not ended. When \<open>next\<close> never
  settles, neither does the middleware.
\<close>

theorem root_span_ended_iff_next_resolves:
  "let (rootSpan, s5) = install js tracer update s;
       (r, s6) = run js tracer prev next s5
   in take (length (calls s5)) (calls s6) = calls s5
      \<and> End rootSpan \<notin> set (drop (length (calls s)) (calls s6))
      \<and> openTelemetry js tracer prev update next s =
          (case r of
             Resolved _ \<Rightarrow> (Resolved (), s6\<lparr>calls := calls s6 @ [End rootSpan]\<rparr>)
           | Rejected e \<Rightarrow> (Rejected e, s6)
           | Pending \<Rightarrow> (Pending, s6))"
proof -
  obtain rootSpan s5 where i: "install js tracer update s = (rootSpan, s5)"
    by (cases "install js tracer update s")
  obtain r s6 where n: "run js tracer prev next s5 = (r, s6)"
    by (cases "run js tracer prev next s5")
  have root: "rootSpan = nextSpan s" and s5n: "nextSpan s5 = Suc (nextSpan s)"
    and s5c: "calls s5 = calls s @
           [StartSpan tracer (nextSpan s) (''update.'' @ template (updateType update))
              [(''root'', ABool True)] active,
            SetAttribute (nextSpan s) ''update.type'' (attrOf (updateType update)),
            SetAttribute (nextSpan s) ''update.body'' (AString (js (JObj update)))]"
    using i by (auto simp: install_eq)
  have e: "extends s5 s6"
    using run_extends[of s5 js tracer prev "next"] n by simp
  have 1: "take (length (calls s5)) (calls s6) = calls s5"
    using e by (rule extends_calls)
  obtain new where new: "calls s6 = calls s5 @ new" "\<forall>sp. End sp \<in> set new \<longrightarrow> nextSpan s5 \<le> sp"
    using e unfolding extends_def by blast
  have "End rootSpan \<notin> set new"
    using new(2) by (auto simp: root s5n)
  then have 2: "End rootSpan \<notin> set (drop (length (calls s)) (calls s6))"
    by (simp add: new(1) s5c)
  have 3: "openTelemetry js tracer prev update next s =
          (case r of
             Resolved _ \<Rightarrow> (Resolved (), s6\<lparr>calls := calls s6 @ [End rootSpan]\<rparr>)
           | Rejected e \<Rightarrow> (Rejected e, s6)
           | Pending \<Rightarrow> (Pending, s6))"
    using i n by (simp add: openTelemetry_eq root split: promise.splits)
  show ?thesis using 1 2 3 i n by simp
qed

theorem root_span_ended_iff_next_resolves_witness:
  "openTelemetry placeholder (Tracer ''grammy-otel'') ok_api message_update
     (Api ''sendMessage'' (JObj [(''text'', JStr ''hi'')]) None Return) u0
   = (Resolved (),
      u1\<lparr>calls := calls u1 @
           [StartSpan (Tracer ''grammy-otel'') 1 ''api.sendMessage'' [] (setSpan active 0),
            AddEvent 1 ''api.request'' [(''body'', AString ''<json>'')],
            SetAttribute 1 ''api.method'' (AString ''sendMessage''),
            Prev ''sendMessage'' (JObj [(''text'', JStr ''hi'')]) None,
            AddEvent 1 ''api.response'' [(''body'', AString ''<json>'')],
            End 1,
            End 0],
         nextSpan := 2\<rparr>)"
  using root_span_ended_iff_next_resolves
          [of placeholder "Tracer ''grammy-otel''" message_update u0 ok_api
              "Api ''sendMessage'' (JObj [(''text'', JStr ''hi'')]) None Return"]
  by (simp add: install_message_update updateTransformer_eq await_def ok_api_def u1_def
        placeholder_def)

text \<open>
  C4 as the specification states it fails where \<open>next\<close> throws: the error reaches
  the caller and the log holds no \<open>End\<close> of the root span.
\<close>

theorem next_throws_root_span_open_counterexample:
  "fst (openTelemetry placeholder (Tracer ''grammy-otel'') ok_api message_update
          (Throw (Error ''boom'')) u0) = Rejected (Error ''boom'')
   \<and> count_list
        (calls (snd (openTelemetry placeholder (Tracer ''grammy-otel'') ok_api message_update
           (Throw (Error ''boom'')) u0))) (End 0) = 0"
  by (simp add: openTelemetry_eq install_eq u0_def)

text \<open>
  \<open>trace\<close> hands its \<open>attributes\<close> to \<open>startSpan\<close> in the place of the span
  options (line 240), so an attribute named \<open>root\<close> is read as the option of that name.
  Where no handler passes \<open>trace\<close> such an attribute, exactly one call of an invocation
  of the middleware starts a span with the option \<open>root: true\<close>: it is the first call
  of the invocation, it is made without a context, and the span is named
  \<open>update.<type>\<close>.
\<close>

lemma one_root_span_per_update:
  assumes "noRootAttribute next"
  shows "filter rootOption
           (drop (length (calls s)) (calls (snd (openTelemetry js tracer prev update next s))))
         = [StartSpan tracer (nextSpan s) (''update.'' @ template (updateType update))
              [(''root'', ABool True)] active]
       \<and> take (Suc (length (calls s))) (calls (snd (openTelemetry js tracer prev update next s)))
         = calls s @ [StartSpan tracer (nextSpan s) (''update.'' @ template (updateType update))
              [(''root'', ABool True)] active]"
proof -
  obtain rootSpan s5 where i: "install js tracer update s = (rootSpan, s5)"
    by (cases "install js tracer update s")
  obtain r s6 where n: "run js tracer prev next s5 = (r, s6)"
    by (cases "run js tracer prev next s5")
  have s5c: "calls s5 = calls s @
           [StartSpan tracer (nextSpan s) (''update.'' @ template (updateType update))
              [(''root'', ABool True)] active,
            SetAttribute (nextSpan s) ''update.type'' (attrOf (updateType update)),
            SetAttribute (nextSpan s) ''update.body'' (AString (js (JObj update)))]"
    using i by (auto simp: install_eq)
  obtain new where new: "calls s6 = calls s5 @ new" "filter rootOption new = []"
    using run_no_root[OF assms, of js tracer prev s5] n by auto
  have "calls (snd (openTelemetry js tracer prev update next s)) = calls s6
      \<or> calls (snd (openTelemetry js tracer prev update next s)) = calls s6 @ [End (nextSpan s)]"
    using i n by (cases r) (simp_all add: openTelemetry_eq)
  then show ?thesis
    using new by (auto simp: s5c)
qed

lemma one_root_span_per_update_example:
  "noRootAttribute (Trace ''step1'' [] (Api ''sendMessage'' (JObj [(''text'', JStr ''hi'')]) None Return) Return)
   \<and> filter rootOption
        (calls (snd (openTelemetry placeholder (Tracer ''grammy-otel'') ok_api message_update
           (Trace ''step1'' [] (Api ''sendMessage'' (JObj [(''text'', JStr ''hi'')]) None Return) Return)
           u0)))
     = [StartSpan (Tracer ''grammy-otel'') 0 ''update.message'' [(''root'', ABool True)] active]"
  using one_root_span_per_update
     [of "Trace ''step1'' [] (Api ''sendMessage'' (JObj [(''text'', JStr ''hi'')]) None Return) Return"
         u0 placeholder "Tracer ''grammy-otel''" ok_api message_update]
  by (simp add: u0_def message_update_def updateType_def Object_keys_def)

text \<open>
  C5, evaluated where the code departs from it: the handler calls
  \<open>trace(''x'', {root: true}, fn)\<close>. The attributes reach \<open>startSpan\<close> as the span
  options, so one invocation of the middleware starts two spans with the option
  \<open>root: true\<close>: the span of the update and the span \<open>x\<close>. The attribute itself is
  never set on the span \<open>x\<close>.
\<close>

theorem trace_root_attribute_starts_second_root_span:
  "calls (snd (openTelemetry placeholder (Tracer ''grammy-otel'') ok_api message_update
      (Trace ''x'' [(''root'', ABool True)] Return Return) u0))
   = [StartSpan (Tracer ''grammy-otel'') 0 ''update.message'' [(''root'', ABool True)] active,
      SetAttribute 0 ''update.type'' (AString ''message''),
      SetAttribute 0 ''update.body'' (AString ''<json>''),
      StartSpan (Tracer ''grammy-otel'') 1 ''x'' [(''root'', ABool True)] (setSpan active 0),
      End 1, End 0]
   \<and> filter rootOption
        (calls (snd (openTelemetry placeholder (Tracer ''grammy-otel'') ok_api message_update
           (Trace ''x'' [(''root'', ABool True)] Return Return) u0)))
     = [StartSpan (Tracer ''grammy-otel'') 0 ''update.message'' [(''root'', ABool True)] active,
        StartSpan (Tracer ''grammy-otel'') 1 ''x'' [(''root'', ABool True)] (setSpan active 0)]"
  by (simp add: openTelemetry_eq install_eq trace_eq await_def u0_def message_update_def
        updateType_def Object_keys_def placeholder_def)

subsection \<open>The type of an update\<close>




subsection \<open>The context handed to \<open>trace\<close> and the fields of \<open>ctx.openTelemetry\<close>\<close>

text \<open>
  C2, evaluated where the code departs from it: \<open>trace(''b'', ...)\<close> is called inside
  the function of \<open>trace(''a'', ...)\<close>, and an API call is made inside \<open>b\<close>. The
  span \<open>b\<close> (number 2) is started in the context of the root span (number 0), not in
  that of the pending span \<open>a\<close> (number 1); the span of the API call is started in
  \<open>otContext\<close>, which holds the span \<open>b\<close>.
\<close>

theorem nested_trace_parent_is_root:
  "calls (snd (openTelemetry placeholder (Tracer ''grammy-otel'') ok_api message_update
      (Trace ''a'' []
         (Trace ''b'' [] (Api ''sendMessage'' (JObj [(''text'', JStr ''hi'')]) None Return) Return)
         Return) u0))
   = [StartSpan (Tracer ''grammy-otel'') 0 ''update.message'' [(''root'', ABool True)] active,
      SetAttribute 0 ''update.type'' (AString ''message''),
      SetAttribute 0 ''update.body'' (AString ''<json>''),
      StartSpan (Tracer ''grammy-otel'') 1 ''a'' [] (setSpan active 0),
      StartSpan (Tracer ''grammy-otel'') 2 ''b'' [] (setSpan active 0),
      StartSpan (Tracer ''grammy-otel'') 3 ''api.sendMessage'' []
        (setSpan (setSpan (setSpan active 0) 1) 2),
      AddEvent 3 ''api.request'' [(''body'', AString ''<json>'')],
      SetAttribute 3 ''api.method'' (AString ''sendMessage''),
      Prev ''sendMessage'' (JObj [(''text'', JStr ''hi'')]) None,
      AddEvent 3 ''api.response'' [(''body'', AString ''<json>'')],
      End 3, End 2, End 1, End 0]"
  by (simp add: openTelemetry_eq install_eq trace_eq updateTransformer_eq await_def
        u0_def message_update_def updateType_def Object_keys_def ok_api_def placeholder_def)

text \<open>
  C10. Running a handler, \<open>trace\<close> and the transformer of an update leave
  \<open>ctx.openTelemetry\<close> as it is; after the middleware has run with any handler, the
  fields are the ones assigned from the root span; and a \<open>trace\<close> made by the handler
  moves \<open>otContext\<close> to the new span while the field \<open>context\<close> still holds the
  root span.
\<close>

theorem ctx_openTelemetry_assigned_once:
  "ctx_openTelemetry (snd (run js tracer prev h s)) = ctx_openTelemetry s
   \<and> ctx_openTelemetry (snd (trace tracer name attributes (\<lambda>sp. run js tracer prev body) s))
       = ctx_openTelemetry s
   \<and> ctx_openTelemetry (snd (updateTransformer js tracer prev method payload signal s))
       = ctx_openTelemetry s
   \<and> ctx_openTelemetry (snd (openTelemetry js tracer prev update next s))
       = Some \<lparr>ot_tracer = tracer, ot_context = setSpan active (nextSpan s),
               ot_spanContext = SpanContext (nextSpan s)\<rparr>
   \<and> otContext (snd (openTelemetry js tracer prev update (Trace name attributes Return Return) s))
       = setSpan (setSpan active (nextSpan s)) (Suc (nextSpan s))"
proof -
  have 1: "ctx_openTelemetry (snd (run js tracer prev h s)) = ctx_openTelemetry s" for h s
    using run_extends[of s js tracer prev h] by (auto simp: extends_def)
  have 2: "ctx_openTelemetry (snd (trace tracer name attributes (\<lambda>sp. run js tracer prev body) s))
       = ctx_openTelemetry s"
    using 1[of "Trace name attributes body Return" s]
    by (simp add: await_def split: prod.splits promise.splits)
  have 3: "ctx_openTelemetry (snd (updateTransformer js tracer prev method payload signal s))
       = ctx_openTelemetry s"
    by (simp add: updateTransformer_eq split: promise.splits)
  have 4: "ctx_openTelemetry (snd (openTelemetry js tracer prev update next s))
       = Some \<lparr>ot_tracer = tracer, ot_context = setSpan active (nextSpan s),
               ot_spanContext = SpanContext (nextSpan s)\<rparr>"
    using 1[of "next" "snd (install js tracer update s)"]
    by (auto simp: openTelemetry_eq install_eq split: prod.splits promise.splits)
  have 5: "otContext (snd (openTelemetry js tracer prev update (Trace name attributes Return Return) s))
       = setSpan (setSpan active (nextSpan s)) (Suc (nextSpan s))"
    by (simp add: openTelemetry_eq install_eq trace_eq await_def)
  show ?thesis using 1 2 3 4 5 by simp
qed

end
